theory Spec2Isabelle
  imports Main
begin

section \<open>The mint eligibility controller of StreamlinedNFTMinting.tsx\<close>

text \<open>
  The component \<^verbatim>\<open>StreamlinedNFTMinting\<close> keeps five pieces of React state
  (\<^verbatim>\<open>selectedChain\<close>, \<^verbatim>\<open>isLoading\<close>, \<^verbatim>\<open>error\<close>, \<^verbatim>\<open>success\<close>, \<^verbatim>\<open>hasMinted\<close>), reads the wallet
  session and the USDC balance from hooks it does not own, and writes one key of
  \<^verbatim>\<open>localStorage\<close>. The model is a record of all of these, the handlers are functions
  from a record to the completion of the call and the record after it, and a mounted
  component is a machine whose events are the renders, the effect, the clicks, and the
  two parts of each handler call.
\<close>

subsection \<open>Data\<close>

text \<open>The state \<^verbatim>\<open>selectedChain\<close> has the type \<^verbatim>\<open>"ethereum" | "base"\<close>.\<close>

datatype chainKey = ethereum | base

fun chainKeyString :: "chainKey \<Rightarrow> string" where
  "chainKeyString ethereum = ''ethereum''"
| "chainKeyString base = ''base''"

text \<open>
  What the component reads of a chain object: \<^verbatim>\<open>id\<close> and \<^verbatim>\<open>name\<close>. The fields carry a
  prime because \<open>id\<close> is a constant of HOL.
\<close>

record chainInfo =
  id' :: int
  name' :: string

text \<open>
  The data of \<^verbatim>\<open>useBalance\<close>: \<^verbatim>\<open>value\<close> is a JavaScript bigint, an unbounded integer.
\<close>

record balanceData =
  value' :: int
  decimals :: nat

text \<open>
  The calls a handler makes to the wallet adapter, in order. The list is a log kept by the
  model, so that "called once" and "not called" can be stated; the component does not read it.
\<close>

datatype adapterCall = ConnectCall | SwitchChainCall int

text \<open>
  The awaited part of a handler either resolves or rejects; a rejected promise under
  \<^verbatim>\<open>await\<close> is a throw inside the \<^verbatim>\<open>try\<close> block. For \<^verbatim>\<open>handleMint\<close> the part that can
  throw is \<^verbatim>\<open>localStorage.setItem\<close>.
\<close>

datatype outcome = Resolves | Rejects

text \<open>How a call ends: it returns to its caller, or an exception leaves it.\<close>

datatype completion = Returned | Raised

record component =
  contractAddress :: string
  isSDKLoaded :: bool
  isConnected :: bool
  address :: "string option"
  chain' :: "chainInfo option"
  usdcBalance :: "balanceData option"
  selectedChain :: chainKey
  isLoading :: bool
  error :: "string option"
  success :: bool
  hasMinted :: bool
  localStorage :: "string \<rightharpoonup> string"
  adapterCalls :: "adapterCall list"

subsection \<open>Derived values of a render\<close>

text \<open>
  \<^verbatim>\<open>findChainByName\<close> lives in \<^verbatim>\<open>~/lib/chains\<close>, which is not among the sources; it is the
  parameter \<open>fc\<close> of every definition that needs the target chain.
\<close>

definition targetChain :: "(chainKey \<Rightarrow> chainInfo option) \<Rightarrow> component \<Rightarrow> chainInfo option" where
  "targetChain fc w = fc (selectedChain w)"

text \<open>
  \<^verbatim>\<open>chain?.id === targetChain?.id\<close>: an absent object gives \<^verbatim>\<open>undefined\<close>, and two
  \<^verbatim>\<open>undefined\<close> are equal.
\<close>

definition isCorrectNetwork :: "(chainKey \<Rightarrow> chainInfo option) \<Rightarrow> component \<Rightarrow> bool" where
  "isCorrectNetwork fc w = (map_option id' (chain' w) = map_option id' (targetChain fc w))"

text \<open>
  \<^verbatim>\<open>usdcBalance && usdcBalance.value >= BigInt(10 * 10**6)\<close>, read for its truth value.
\<close>

definition hasEnoughUSDC :: "component \<Rightarrow> bool" where
  "hasEnoughUSDC w =
     (case usdcBalance w of None \<Rightarrow> False | Some b \<Rightarrow> value' b \<ge> 10 * 10 ^ 6)"

text \<open>The truth value of \<^verbatim>\<open>address\<close>: \<^verbatim>\<open>undefined\<close> and the empty string are falsy.\<close>

fun truthy :: "string option \<Rightarrow> bool" where
  "truthy None = False"
| "truthy (Some s) = (s \<noteq> [])"

subsection \<open>The persisted flag\<close>

text \<open>How a template literal prints \<^verbatim>\<open>address\<close>: an absent one as \<^verbatim>\<open>undefined\<close>.\<close>

fun addressString :: "string option \<Rightarrow> string" where
  "addressString None = ''undefined''"
| "addressString (Some s) = s"

text \<open>The key \<^verbatim>\<open>`minted_${contractAddress}_${address}`\<close>.\<close>

definition mintedKey :: "string \<Rightarrow> string \<Rightarrow> string" where
  "mintedKey c a = ''minted_'' @ c @ ''_'' @ a"

text \<open>\<^verbatim>\<open>localStorage.getItem(key) === "true"\<close>; \<^verbatim>\<open>getItem\<close> gives \<^verbatim>\<open>null\<close> for a missing key.\<close>

definition alreadyMinted :: "(string \<rightharpoonup> string) \<Rightarrow> string \<Rightarrow> bool" where
  "alreadyMinted ls key = (ls key = Some ''true'')"

text \<open>The body of the effect with dependencies \<^verbatim>\<open>[address, isConnected, contractAddress]\<close>.\<close>

definition hasMintedEffect :: "component \<Rightarrow> component" where
  "hasMintedEffect w =
     (if truthy (address w) \<and> isConnected w
      then w\<lparr>hasMinted :=
               alreadyMinted (localStorage w)
                 (mintedKey (contractAddress w) (addressString (address w)))\<rparr>
      else w)"

subsection \<open>The handlers\<close>

text \<open>
  \<^verbatim>\<open>try { body } catch (err) { handler } finally { final }\<close>: the handler runs when the body
  throws, the final block always runs, and an exception leaves the statement when the
  final block throws, or when the handler (or the unhandled body) does.
\<close>

definition tryCatchFinally ::
  "('s \<Rightarrow> completion \<times> 's) \<Rightarrow> ('s \<Rightarrow> completion \<times> 's) \<Rightarrow> ('s \<Rightarrow> completion \<times> 's)
     \<Rightarrow> 's \<Rightarrow> completion \<times> 's" where
  "tryCatchFinally body handler final s =
     (case body s of
        (c1, s1) \<Rightarrow>
          (case (case c1 of Returned \<Rightarrow> (Returned, s1) | Raised \<Rightarrow> handler s1) of
             (c2, s2) \<Rightarrow>
               (case final s2 of
                  (Raised, s3) \<Rightarrow> (Raised, s3)
                | (Returned, s3) \<Rightarrow> (c2, s3))))"

text \<open>A block of state setters, which do not throw.\<close>

definition setters :: "('s \<Rightarrow> 's) \<Rightarrow> 's \<Rightarrow> completion \<times> 's" where
  "setters f s = (Returned, f s)"

text \<open>
  The three handlers, each as one call from its first statement to its last with nothing
  in between. The events further down take a call in two parts, around its \<^verbatim>\<open>await\<close>.
\<close>

definition handleConnectWallet :: "outcome \<Rightarrow> component \<Rightarrow> completion \<times> component" where
  "handleConnectWallet out w =
     (if \<not> isSDKLoaded w then (Returned, w\<lparr>error := Some ''Farcaster SDK not loaded''\<rparr>)
      else tryCatchFinally
        (\<lambda>s. let s1 = s\<lparr>isLoading := True\<rparr>;
                  s2 = s1\<lparr>error := None\<rparr>;
                  s3 = s2\<lparr>adapterCalls := adapterCalls s2 @ [ConnectCall]\<rparr>
              in (case out of Resolves \<Rightarrow> (Returned, s3) | Rejects \<Rightarrow> (Raised, s3)))
        (setters (\<lambda>s. s\<lparr>error := Some ''Failed to connect wallet''\<rparr>))
        (setters (\<lambda>s. s\<lparr>isLoading := False\<rparr>))
        w)"

definition handleSwitchNetwork ::
  "(chainKey \<Rightarrow> chainInfo option) \<Rightarrow> outcome \<Rightarrow> component \<Rightarrow> completion \<times> component" where
  "handleSwitchNetwork fc out w =
     (case targetChain fc w of
        None \<Rightarrow> (Returned, w)
      | Some t \<Rightarrow>
          tryCatchFinally
            (\<lambda>s. let s1 = s\<lparr>isLoading := True\<rparr>;
                      s2 = s1\<lparr>error := None\<rparr>;
                      s3 = s2\<lparr>adapterCalls := adapterCalls s2 @ [SwitchChainCall (id' t)]\<rparr>
                  in (case out of Resolves \<Rightarrow> (Returned, s3) | Rejects \<Rightarrow> (Raised, s3)))
            (setters (\<lambda>s. s\<lparr>error :=
               Some (''Failed to switch to '' @ chainKeyString (selectedChain w))\<rparr>))
            (setters (\<lambda>s. s\<lparr>isLoading := False\<rparr>))
            w)"

text \<open>
  \<^verbatim>\<open>handleMint\<close>. The two-second promise always resolves. The timer that hides the success
  message five seconds later is the separate event \<open>SuccessTimeout\<close> below.
\<close>

definition handleMint :: "outcome \<Rightarrow> component \<Rightarrow> completion \<times> component" where
  "handleMint out w =
     (if \<not> isConnected w \<or> \<not> truthy (address w) \<or> hasMinted w then (Returned, w)
      else tryCatchFinally
        (\<lambda>s. let s1 = s\<lparr>isLoading := True\<rparr>;
                  s2 = s1\<lparr>error := None\<rparr>
              in (case out of
                    Rejects \<Rightarrow> (Raised, s2)
                  | Resolves \<Rightarrow>
                      let key = mintedKey (contractAddress w) (addressString (address w));
                          s3 = s2\<lparr>localStorage := (localStorage s2)(key \<mapsto> ''true'')\<rparr>;
                          s4 = s3\<lparr>hasMinted := True\<rparr>;
                          s5 = s4\<lparr>success := True\<rparr>
                      in (Returned, s5)))
        (setters (\<lambda>s. s\<lparr>error := Some ''Minting failed. Please try again.''\<rparr>))
        (setters (\<lambda>s. s\<lparr>isLoading := False\<rparr>))
        w)"

subsection \<open>The action button\<close>

definition canMint :: "(chainKey \<Rightarrow> chainInfo option) \<Rightarrow> component \<Rightarrow> bool" where
  "canMint fc w =
     (isConnected w \<and> isCorrectNetwork fc w \<and> hasEnoughUSDC w \<and> \<not> hasMinted w \<and> \<not> isLoading w)"

text \<open>\<^verbatim>\<open>${targetChain?.name}\<close> prints \<^verbatim>\<open>undefined\<close> for an absent chain.\<close>

definition getButtonText :: "(chainKey \<Rightarrow> chainInfo option) \<Rightarrow> component \<Rightarrow> string" where
  "getButtonText fc w =
     (if \<not> isConnected w then ''Connect Wallet''
      else if \<not> isCorrectNetwork fc w
        then ''Switch to '' @ (case targetChain fc w of None \<Rightarrow> ''undefined'' | Some t \<Rightarrow> name' t)
      else if hasMinted w then ''Already Minted''
      else if \<not> hasEnoughUSDC w then ''Insufficient USDC''
      else ''Mint NFT'')"

datatype handler = HandleConnectWallet | HandleSwitchNetwork | HandleMint

definition getButtonAction :: "(chainKey \<Rightarrow> chainInfo option) \<Rightarrow> component \<Rightarrow> handler" where
  "getButtonAction fc w =
     (if \<not> isConnected w then HandleConnectWallet
      else if \<not> isCorrectNetwork fc w then HandleSwitchNetwork
      else HandleMint)"

text \<open>The \<^verbatim>\<open>disabled\<close> attribute of the action button.\<close>

definition buttonDisabled :: "(chainKey \<Rightarrow> chainInfo option) \<Rightarrow> component \<Rightarrow> bool" where
  "buttonDisabled fc w =
     (hasMinted w \<or> isLoading w \<or>
      (\<not> canMint fc w \<and> isConnected w \<and> isCorrectNetwork fc w \<and> \<not> hasEnoughUSDC w))"

fun runHandler ::
  "(chainKey \<Rightarrow> chainInfo option) \<Rightarrow> handler \<Rightarrow> outcome \<Rightarrow> component \<Rightarrow> completion \<times> component" where
  "runHandler fc HandleConnectWallet out w = handleConnectWallet out w"
| "runHandler fc HandleSwitchNetwork out w = handleSwitchNetwork fc out w"
| "runHandler fc HandleMint out w = handleMint out w"

text \<open>What a click on the action button can start: nothing when the button is disabled.\<close>

definition enabledAction :: "(chainKey \<Rightarrow> chainInfo option) \<Rightarrow> component \<Rightarrow> handler option" where
  "enabledAction fc w = (if buttonDisabled fc w then None else Some (getButtonAction fc w))"

subsection \<open>Renders and the effect\<close>

text \<open>
  The values the hooks and the parent hand to a render: the component reads them and
  cannot write them.
\<close>

record hookValues =
  hv_contractAddress :: string
  hv_isSDKLoaded :: bool
  hv_isConnected :: bool
  hv_address :: "string option"
  hv_chain :: "chainInfo option"
  hv_usdcBalance :: "balanceData option"

text \<open>
  The component as a render with new hook values sees it: the React state is the one the
  previous render left.
\<close>

definition renderWith :: "hookValues \<Rightarrow> component \<Rightarrow> component" where
  "renderWith h w =
     w\<lparr>contractAddress := hv_contractAddress h, isSDKLoaded := hv_isSDKLoaded h,
       isConnected := hv_isConnected h, address := hv_address h,
       chain' := hv_chain h, usdcBalance := hv_usdcBalance h\<rparr>"

text \<open>
  The first render of a mounted component has the five \<^verbatim>\<open>useState\<close> initial values.
  \<^verbatim>\<open>localStorage\<close> outlives the component.
\<close>

definition mountRender :: "component \<Rightarrow> component" where
  "mountRender w =
     w\<lparr>selectedChain := base, isLoading := False, error := None, success := False,
       hasMinted := False\<rparr>"

text \<open>The two network buttons: \<^verbatim>\<open>onClick\<close> sets the chain, \<^verbatim>\<open>disabled={isLoading}\<close>.\<close>

definition selectChain :: "chainKey \<Rightarrow> component \<Rightarrow> component" where
  "selectChain k w = (if isLoading w then w else w\<lparr>selectedChain := k\<rparr>)"

subsection \<open>A handler call in two parts\<close>

text \<open>
  Each handler awaits once: the promise of \<^verbatim>\<open>connect\<close>, that of \<^verbatim>\<open>switchChain\<close>, the
  two-second timer of \<^verbatim>\<open>handleMint\<close>. Renders, clicks, other calls and a remount can come
  between the part before the \<^verbatim>\<open>await\<close> and the part after it. A suspended call keeps
  what its closure holds of the render that made it, and whether the component that
  made it is still mounted: a state setter of an unmounted component changes nothing,
  while \<^verbatim>\<open>localStorage.setItem\<close> writes all the same.
\<close>

record call =
  call_handler :: handler
  call_contractAddress :: string
  call_address :: "string option"
  call_selectedChain :: chainKey
  call_live :: bool

definition capture :: "handler \<Rightarrow> component \<Rightarrow> call" where
  "capture h w =
     \<lparr>call_handler = h, call_contractAddress = contractAddress w, call_address = address w,
      call_selectedChain = selectedChain w, call_live = True\<rparr>"

text \<open>
  From the call to the \<^verbatim>\<open>await\<close>: the guard, \<^verbatim>\<open>setIsLoading(true)\<close>, \<^verbatim>\<open>setError(null)\<close>
  and the call of the adapter. No call is left suspended when the guard returns.
\<close>

fun beginCall ::
  "(chainKey \<Rightarrow> chainInfo option) \<Rightarrow> handler \<Rightarrow> component \<Rightarrow> component \<times> call option" where
  "beginCall fc HandleConnectWallet w =
     (if \<not> isSDKLoaded w then (w\<lparr>error := Some ''Farcaster SDK not loaded''\<rparr>, None)
      else (let s1 = w\<lparr>isLoading := True\<rparr>;
                s2 = s1\<lparr>error := None\<rparr>;
                s3 = s2\<lparr>adapterCalls := adapterCalls s2 @ [ConnectCall]\<rparr>
            in (s3, Some (capture HandleConnectWallet w))))"
| "beginCall fc HandleSwitchNetwork w =
     (case targetChain fc w of
        None \<Rightarrow> (w, None)
      | Some t \<Rightarrow>
          (let s1 = w\<lparr>isLoading := True\<rparr>;
               s2 = s1\<lparr>error := None\<rparr>;
               s3 = s2\<lparr>adapterCalls := adapterCalls s2 @ [SwitchChainCall (id' t)]\<rparr>
           in (s3, Some (capture HandleSwitchNetwork w))))"
| "beginCall fc HandleMint w =
     (if \<not> isConnected w \<or> \<not> truthy (address w) \<or> hasMinted w then (w, None)
      else (let s1 = w\<lparr>isLoading := True\<rparr>;
                s2 = s1\<lparr>error := None\<rparr>
            in (s2, Some (capture HandleMint w))))"

text \<open>A state setter called by a suspended call: it acts on a mounted component only.\<close>

definition setState ::
  "call \<Rightarrow> (component \<Rightarrow> component) \<Rightarrow> component \<Rightarrow> completion \<times> component" where
  "setState c f s = (Returned, if call_live c then f s else s)"

text \<open>
  From the \<^verbatim>\<open>await\<close> to the end of the call, on the component as it is by then: the rest
  of the \<^verbatim>\<open>try\<close> block, the \<^verbatim>\<open>catch\<close> block when the awaited promise rejects (for
  \<^verbatim>\<open>handleMint\<close>: when \<^verbatim>\<open>setItem\<close> throws), and the \<^verbatim>\<open>finally\<close> block.
\<close>

fun resumeBody :: "call \<Rightarrow> outcome \<Rightarrow> component \<Rightarrow> completion \<times> component" where
  "resumeBody c Rejects s = (Raised, s)"
| "resumeBody c Resolves s =
     (case call_handler c of
        HandleMint \<Rightarrow>
          (let key = mintedKey (call_contractAddress c) (addressString (call_address c));
               s3 = s\<lparr>localStorage := (localStorage s)(key \<mapsto> ''true'')\<rparr>;
               s4 = snd (setState c (\<lambda>s. s\<lparr>hasMinted := True\<rparr>) s3);
               s5 = snd (setState c (\<lambda>s. s\<lparr>success := True\<rparr>) s4)
           in (Returned, s5))
      | _ \<Rightarrow> (Returned, s))"

fun catchMessage :: "call \<Rightarrow> string" where
  "catchMessage c =
     (case call_handler c of
        HandleConnectWallet \<Rightarrow> ''Failed to connect wallet''
      | HandleSwitchNetwork \<Rightarrow> ''Failed to switch to '' @ chainKeyString (call_selectedChain c)
      | HandleMint \<Rightarrow> ''Minting failed. Please try again.'')"

definition resumeCall :: "call \<Rightarrow> outcome \<Rightarrow> component \<Rightarrow> completion \<times> component" where
  "resumeCall c out w =
     tryCatchFinally (resumeBody c out)
       (setState c (\<lambda>s. s\<lparr>error := Some (catchMessage c)\<rparr>))
       (setState c (\<lambda>s. s\<lparr>isLoading := False\<rparr>))
       w"

subsection \<open>Events\<close>

text \<open>
  A mounted component: the component as its last render left it, the handler calls
  suspended at their \<^verbatim>\<open>await\<close>, and whether the effect of the last render has yet to run.
\<close>

record machine =
  current :: component
  inFlight :: "call list"
  effectPending :: bool

definition mounted :: "component \<Rightarrow> machine" where
  "mounted w = \<lparr>current = w, inFlight = [], effectPending = False\<rparr>"

text \<open>The effect of the last render runs, when it has not yet.\<close>

definition flushEffect :: "machine \<Rightarrow> machine" where
  "flushEffect m =
     (if effectPending m
      then m\<lparr>current := hasMintedEffect (current m), effectPending := False\<rparr>
      else m)"

text \<open>
  A render with new hook values. The effect of the render before it has run by then, and
  the effect of this one is due when one of the dependencies
  \<^verbatim>\<open>[address, isConnected, contractAddress]\<close> has changed.
\<close>

definition render :: "hookValues \<Rightarrow> machine \<Rightarrow> machine" where
  "render h m =
     (let m1 = flushEffect m;
          w = current m1;
          w1 = renderWith h w
      in m1\<lparr>current := w1,
            effectPending :=
              \<not> (address w1 = address w \<and> isConnected w1 = isConnected w
                   \<and> contractAddress w1 = contractAddress w)\<rparr>)"

text \<open>
  The component is unmounted and mounted again: the state starts over, the effect is due,
  and the calls still suspended belong to a component that is gone.
\<close>

definition remount :: "machine \<Rightarrow> machine" where
  "remount m =
     \<lparr>current = mountRender (current m),
      inFlight = map (\<lambda>c. c\<lparr>call_live := False\<rparr>) (inFlight m),
      effectPending = True\<rparr>"

text \<open>A handler is called: its first part runs, and the call is suspended if it awaits.\<close>

definition invoke :: "(chainKey \<Rightarrow> chainInfo option) \<Rightarrow> handler \<Rightarrow> machine \<Rightarrow> machine" where
  "invoke fc h m =
     (case beginCall fc h (current m) of
        (w1, None) \<Rightarrow> m\<lparr>current := w1\<rparr>
      | (w1, Some c) \<Rightarrow> m\<lparr>current := w1, inFlight := inFlight m @ [c]\<rparr>)"

text \<open>A click on the action button: \<^verbatim>\<open>getButtonAction()\<close>, unless the button is disabled.\<close>

definition clickButton :: "(chainKey \<Rightarrow> chainInfo option) \<Rightarrow> machine \<Rightarrow> machine" where
  "clickButton fc m =
     (case enabledAction fc (current m) of None \<Rightarrow> m | Some h \<Rightarrow> invoke fc h m)"

text \<open>The suspended call number \<open>i\<close> goes on, its awaited promise settled as \<open>out\<close>.\<close>

definition resume :: "nat \<Rightarrow> outcome \<Rightarrow> machine \<Rightarrow> machine" where
  "resume i out m =
     (if i < length (inFlight m)
      then m\<lparr>current := snd (resumeCall (inFlight m ! i) out (current m)),
             inFlight := take i (inFlight m) @ drop (Suc i) (inFlight m)\<rparr>
      else m)"

text \<open>
  Everything that can happen to a mounted component. \<open>Invoke\<close> calls a handler whatever
  the button shows, which covers more than the clicks can do; \<open>SuccessTimeout\<close> is the
  five-second timer of \<^verbatim>\<open>handleMint\<close>.
\<close>

datatype event =
    Click
  | Invoke handler
  | Resume nat outcome
  | SelectChain chainKey
  | SuccessTimeout
  | Render hookValues
  | RunEffect
  | Remount

fun step :: "(chainKey \<Rightarrow> chainInfo option) \<Rightarrow> event \<Rightarrow> machine \<Rightarrow> machine" where
  "step fc Click m = clickButton fc m"
| "step fc (Invoke h) m = invoke fc h m"
| "step fc (Resume i out) m = resume i out m"
| "step fc (SelectChain k) m = m\<lparr>current := selectChain k (current m)\<rparr>"
| "step fc SuccessTimeout m = m\<lparr>current := (current m)\<lparr>success := False\<rparr>\<rparr>"
| "step fc (Render h) m = render h m"
| "step fc RunEffect m = flushEffect m"
| "step fc Remount m = remount m"

fun run :: "(chainKey \<Rightarrow> chainInfo option) \<Rightarrow> event list \<Rightarrow> machine \<Rightarrow> machine" where
  "run fc [] m = m"
| "run fc (e # es) m = run fc es (step fc e m)"

subsection \<open>The derived state as the specification words it\<close>

datatype MintUIState =
  NeedsConnect | NeedsNetworkSwitch | AlreadyMinted | InsufficientFunds | ReadyToMint

text \<open>
  The priority order of the specification, over the connection status, the active chain
  id, the id expected for the selected chain, the mint flag and the fetched balance.
\<close>

definition spec_deriveState ::
  "bool \<Rightarrow> int option \<Rightarrow> int option \<Rightarrow> bool \<Rightarrow> int option \<Rightarrow> MintUIState" where
  "spec_deriveState connected activeId expectedId minted bal =
     (if \<not> connected then NeedsConnect
      else if activeId \<noteq> expectedId then NeedsNetworkSwitch
      else if minted then AlreadyMinted
      else if (case bal of None \<Rightarrow> True | Some v \<Rightarrow> v < 10000000) then InsufficientFunds
      else ReadyToMint)"

text \<open>The specification's state of a component.\<close>

definition uiState :: "(chainKey \<Rightarrow> chainInfo option) \<Rightarrow> component \<Rightarrow> MintUIState" where
  "uiState fc w =
     spec_deriveState (isConnected w) (map_option id' (chain' w))
       (map_option id' (targetChain fc w)) (hasMinted w) (map_option value' (usdcBalance w))"

text \<open>The text the button shows in each state, \<open>n\<close> being the printed target chain name.\<close>

fun stateText :: "string \<Rightarrow> MintUIState \<Rightarrow> string" where
  "stateText n NeedsConnect = ''Connect Wallet''"
| "stateText n NeedsNetworkSwitch = ''Switch to '' @ n"
| "stateText n AlreadyMinted = ''Already Minted''"
| "stateText n InsufficientFunds = ''Insufficient USDC''"
| "stateText n ReadyToMint = ''Mint NFT''"

definition targetName :: "(chainKey \<Rightarrow> chainInfo option) \<Rightarrow> component \<Rightarrow> string" where
  "targetName fc w = (case targetChain fc w of None \<Rightarrow> ''undefined'' | Some t \<Rightarrow> name' t)"


subsection \<open>Concrete inputs\<close>

text \<open>
  An instance of the chain table for the examples below (the table of \<^verbatim>\<open>~/lib/chains\<close> is
  not among the sources; no theorem depends on these numbers).
\<close>

fun exampleChains :: "chainKey \<Rightarrow> chainInfo option" where
  "exampleChains ethereum = Some \<lparr>id' = 1, name' = ''Ethereum''\<rparr>"
| "exampleChains base = Some \<lparr>id' = 8453, name' = ''Base''\<rparr>"

text \<open>
  The component as \<^verbatim>\<open>app.tsx\<close> mounts it, before a wallet is connected, with an empty
  store.
\<close>

definition freshComponent :: component where
  "freshComponent =
     \<lparr>contractAddress = ''0x1234567890123456789012345678901234567890'',
      isSDKLoaded = True, isConnected = False, address = None, chain' = None,
      usdcBalance = None, selectedChain = base, isLoading = False, error = None,
      success = False, hasMinted = False, localStorage = Map.empty, adapterCalls = []\<rparr>"

text \<open>The same component with a wallet connected on Base, holding \<open>v\<close> units of USDC.\<close>

definition connectedComponent :: "int \<Rightarrow> component" where
  "connectedComponent v =
     freshComponent\<lparr>isConnected := True, address := Some ''0xabc'',
       chain' := Some \<lparr>id' = 8453, name' = ''Base''\<rparr>,
       usdcBalance := Some \<lparr>value' = v, decimals = 6\<rparr>\<rparr>"


definition disconnectedHooks :: hookValues where
  "disconnectedHooks =
     \<lparr>hv_contractAddress = ''0x1234567890123456789012345678901234567890'',
      hv_isSDKLoaded = True, hv_isConnected = False, hv_address = None, hv_chain = None,
      hv_usdcBalance = None\<rparr>"

text \<open>A component whose mount effect has run and which has no call in flight.\<close>

definition mintedMachine :: machine where
  "mintedMachine =
     run exampleChains [Invoke HandleMint, Resume 0 Resolves, SuccessTimeout]
       (mounted (connectedComponent 25000000))"

text \<open>
  Wallet \<open>0xabc\<close> has minted, and the component is unmounted and mounted again: the first
  render of the new component, before its effect.
\<close>

definition afterRemount :: machine where
  "afterRemount = step exampleChains Remount mintedMachine"



text \<open>Wallet \<open>0xabc\<close> has minted, the wallet disconnects, and the effect has had its turn.\<close>

definition afterDisconnect :: machine where
  "afterDisconnect = run exampleChains [Render disconnectedHooks, RunEffect] mintedMachine"

subsection \<open>Notions for the statements\<close>

text \<open>The guard at the head of each handler: true when it returns before the \<^verbatim>\<open>try\<close>.\<close>

fun earlyReturn :: "(chainKey \<Rightarrow> chainInfo option) \<Rightarrow> handler \<Rightarrow> component \<Rightarrow> bool" where
  "earlyReturn fc HandleConnectWallet w = (\<not> isSDKLoaded w)"
| "earlyReturn fc HandleSwitchNetwork w = (targetChain fc w = None)"
| "earlyReturn fc HandleMint w = (\<not> isConnected w \<or> \<not> truthy (address w) \<or> hasMinted w)"

text \<open>The message of each \<^verbatim>\<open>catch\<close> block, \<open>k\<close> being the selected chain.\<close>

fun failureMessage :: "handler \<Rightarrow> chainKey \<Rightarrow> string" where
  "failureMessage HandleConnectWallet k = ''Failed to connect wallet''"
| "failureMessage HandleSwitchNetwork k = ''Failed to switch to '' @ chainKeyString k"
| "failureMessage HandleMint k = ''Minting failed. Please try again.''"

text \<open>
  The state \<^verbatim>\<open>hasMinted\<close> agrees with the store for the connected wallet: what the effect
  establishes.
\<close>

definition flagLoaded :: "component \<Rightarrow> bool" where
  "flagLoaded w =
     (if isConnected w \<and> truthy (address w)
      then hasMinted w =
             alreadyMinted (localStorage w)
               (mintedKey (contractAddress w) (addressString (address w)))
      else True)"

text \<open>
  An address as the wallet and the chain write it: \<open>0x\<close> and hexadecimal digits, of either
  case and of any number.
\<close>

definition hexDigit :: "char \<Rightarrow> bool" where
  "hexDigit ch = (ch \<in> set ''0123456789abcdefABCDEF'')"

fun hexAddress :: "string \<Rightarrow> bool" where
  "hexAddress (c0 # c1 # ds) = (c0 = CHR ''0'' \<and> c1 = CHR ''x'' \<and> list_all hexDigit ds)"
| "hexAddress _ = False"


section \<open>The derived state\<close>

lemma stateText_inject: "(stateText n s = stateText n s') = (s = s')"
  by (cases s; cases s'; simp)

lemma getButtonText_stateText:
  "getButtonText fc w = stateText (targetName fc w) (uiState fc w)"
  by (simp add: getButtonText_def uiState_def spec_deriveState_def isCorrectNetwork_def
      hasEnoughUSDC_def targetName_def split: option.splits)

lemma uiState_priority:
  "uiState fc w =
       (if \<not> isConnected w then NeedsConnect
        else if map_option id' (chain' w) \<noteq> map_option id' (fc (selectedChain w))
          then NeedsNetworkSwitch
        else if hasMinted w then AlreadyMinted
        else if (case usdcBalance w of None \<Rightarrow> True | Some b \<Rightarrow> value' b < 10 * 10 ^ 6)
          then InsufficientFunds
        else ReadyToMint)"
  by (simp add: uiState_def spec_deriveState_def targetChain_def split: option.splits)

text \<open>
  Claim C1, as amended. For every component, whatever the connection status, the active
  chain, the selected chain, the balance (possibly absent) and the state \<^verbatim>\<open>hasMinted\<close>
  (the copy of the persisted mint flag that the effect loads), the text computed by
  \<^verbatim>\<open>getButtonText\<close> is the text of exactly one of the five states, and that state is the
  one the priority order picks: not connected gives NeedsConnect; else an active chain id
  other than the target chain's gives NeedsNetworkSwitch; else \<^verbatim>\<open>hasMinted\<close> true gives
  AlreadyMinted; else an absent balance or one below \<open>10 * 10^6\<close> gives InsufficientFunds;
  else ReadyToMint.
\<close>

theorem derived_state_priority:
  "getButtonText fc w = stateText (targetName fc w) (uiState fc w)
   \<and> (\<forall>s. (getButtonText fc w = stateText (targetName fc w) s) = (s = uiState fc w))
   \<and> uiState fc w =
       (if \<not> isConnected w then NeedsConnect
        else if map_option id' (chain' w) \<noteq> map_option id' (fc (selectedChain w))
          then NeedsNetworkSwitch
        else if hasMinted w then AlreadyMinted
        else if (case usdcBalance w of None \<Rightarrow> True | Some b \<Rightarrow> value' b < 10 * 10 ^ 6)
          then InsufficientFunds
        else ReadyToMint)"
proof (intro conjI allI)
  show "getButtonText fc w = stateText (targetName fc w) (uiState fc w)"
    by (rule getButtonText_stateText)
  show "(getButtonText fc w = stateText (targetName fc w) s) = (s = uiState fc w)" for s
    unfolding getButtonText_stateText stateText_inject by auto
  show "uiState fc w =
       (if \<not> isConnected w then NeedsConnect
        else if map_option id' (chain' w) \<noteq> map_option id' (fc (selectedChain w))
          then NeedsNetworkSwitch
        else if hasMinted w then AlreadyMinted
        else if (case usdcBalance w of None \<Rightarrow> True | Some b \<Rightarrow> value' b < 10 * 10 ^ 6)
          then InsufficientFunds
        else ReadyToMint)"
    by (rule uiState_priority)
qed

theorem derived_state_priority_witness:
  "getButtonText exampleChains (connectedComponent 25000000) = ''Mint NFT''
   \<and> uiState exampleChains (connectedComponent 25000000) = ReadyToMint"
  using derived_state_priority [of exampleChains "connectedComponent 25000000"]
  by (simp add: connectedComponent_def freshComponent_def)

text \<open>
  Claim C1 as stated fails: the persisted flag is not an input of the derivation. Wallet
  \<open>0xabc\<close> has minted and the component is mounted again: in its first render the flag of
  the pair is true in the store, the wallet is connected on the target chain, and
  \<^verbatim>\<open>hasMinted\<close> has its initial value, so that the derived state is ReadyToMint and the
  button says "Mint NFT".
\<close>

theorem derived_state_priority_counterexample:
  "alreadyMinted (localStorage (current afterRemount))
     (mintedKey (contractAddress (current afterRemount)) ''0xabc'')
   \<and> isConnected (current afterRemount)
   \<and> address (current afterRemount) = Some ''0xabc''
   \<and> isCorrectNetwork exampleChains (current afterRemount)
   \<and> \<not> hasMinted (current afterRemount)
   \<and> uiState exampleChains (current afterRemount) = ReadyToMint
   \<and> getButtonText exampleChains (current afterRemount) = ''Mint NFT''"
  by (simp add: afterRemount_def mintedMachine_def mounted_def connectedComponent_def
      freshComponent_def invoke_def resume_def resumeCall_def tryCatchFinally_def
      setState_def capture_def remount_def mountRender_def Let_def alreadyMinted_def
      isCorrectNetwork_def targetChain_def mintedKey_def uiState_def spec_deriveState_def
      getButtonText_def hasEnoughUSDC_def)

text \<open>
  Claim C4. With the wallet connected, the active chain that of the selected chain and the
  mint flag false, a balance of exactly 9999999 units gives InsufficientFunds (the button
  reads "Insufficient USDC") and a balance of exactly 10000000 units gives ReadyToMint
  ("Mint NFT"): the comparison is \<open>value \<ge> 10 * 10^6\<close> on unbounded integers.
\<close>

theorem balance_threshold:
  "isConnected w \<and> isCorrectNetwork fc w \<and> \<not> hasMinted w \<and> usdcBalance w = Some b \<longrightarrow>
     (value' b = 9999999 \<longrightarrow>
        getButtonText fc w = ''Insufficient USDC'' \<and> uiState fc w = InsufficientFunds)
   \<and> (value' b = 10000000 \<longrightarrow>
        getButtonText fc w = ''Mint NFT'' \<and> uiState fc w = ReadyToMint)
   \<and> (hasEnoughUSDC w = (value' b \<ge> 10000000))"
  by (simp add: getButtonText_def uiState_def spec_deriveState_def isCorrectNetwork_def
      hasEnoughUSDC_def)

theorem balance_threshold_witness:
  "getButtonText exampleChains (connectedComponent 9999999) = ''Insufficient USDC''
   \<and> uiState exampleChains (connectedComponent 9999999) = InsufficientFunds
   \<and> getButtonText exampleChains (connectedComponent 10000000) = ''Mint NFT''
   \<and> uiState exampleChains (connectedComponent 10000000) = ReadyToMint"
  using balance_threshold [of "connectedComponent 9999999" exampleChains
      "\<lparr>value' = 9999999, decimals = 6\<rparr>"]
    balance_threshold [of "connectedComponent 10000000" exampleChains
      "\<lparr>value' = 10000000, decimals = 6\<rparr>"]
  by (simp add: connectedComponent_def freshComponent_def isCorrectNetwork_def targetChain_def)

section \<open>The handlers in closed form\<close>

lemma handleConnectWallet_eq:
  "handleConnectWallet out w =
     (Returned,
      if \<not> isSDKLoaded w then w\<lparr>error := Some ''Farcaster SDK not loaded''\<rparr>
      else w\<lparr>isLoading := False,
             error := (case out of Resolves \<Rightarrow> None
                       | Rejects \<Rightarrow> Some ''Failed to connect wallet''),
             adapterCalls := adapterCalls w @ [ConnectCall]\<rparr>)"
  by (cases out) (simp_all add: handleConnectWallet_def tryCatchFinally_def setters_def)

lemma handleSwitchNetwork_eq:
  "handleSwitchNetwork fc out w =
     (Returned,
      case targetChain fc w of
        None \<Rightarrow> w
      | Some t \<Rightarrow>
          w\<lparr>isLoading := False,
            error := (case out of Resolves \<Rightarrow> None
                      | Rejects \<Rightarrow>
                          Some (''Failed to switch to '' @ chainKeyString (selectedChain w))),
            adapterCalls := adapterCalls w @ [SwitchChainCall (id' t)]\<rparr>)"
  by (cases out; cases "targetChain fc w")
    (simp_all add: handleSwitchNetwork_def tryCatchFinally_def setters_def)

lemma handleMint_eq:
  "handleMint out w =
     (Returned,
      if \<not> isConnected w \<or> \<not> truthy (address w) \<or> hasMinted w then w
      else (case out of
              Rejects \<Rightarrow>
                w\<lparr>isLoading := False, error := Some ''Minting failed. Please try again.''\<rparr>
            | Resolves \<Rightarrow>
                w\<lparr>isLoading := False, error := None,
                  localStorage :=
                    (localStorage w)
                      (mintedKey (contractAddress w) (addressString (address w)) \<mapsto> ''true''),
                  hasMinted := True, success := True\<rparr>))"
  by (cases out) (simp_all add: handleMint_def tryCatchFinally_def setters_def)

text \<open>
  Claim C3. When \<^verbatim>\<open>handleMint\<close> is called while the wallet is not connected, the address is
  absent (or empty), or the mint flag \<^verbatim>\<open>hasMinted\<close> is true, it returns at once and the
  component is the one it was called with: the store, \<^verbatim>\<open>isLoading\<close>, \<^verbatim>\<open>error\<close> and
  \<^verbatim>\<open>success\<close> are unchanged. The same holds when the flag in the store is true for the
  connected wallet and the effect has loaded it.
\<close>

theorem mint_guard_noop:
  "(\<not> isConnected w \<or> address w = None \<or> address w = Some [] \<or> hasMinted w
      \<longrightarrow> handleMint out w = (Returned, w))
   \<and> (flagLoaded w \<and> isConnected w \<and> address w = Some a
        \<and> alreadyMinted (localStorage w) (mintedKey (contractAddress w) a)
      \<longrightarrow> handleMint out w = (Returned, w))"
  by (cases "address w") (auto simp: handleMint_eq flagLoaded_def)

theorem mint_guard_noop_witness:
  "handleMint Resolves freshComponent = (Returned, freshComponent)
   \<and> handleMint Resolves ((connectedComponent 25000000)\<lparr>hasMinted := True\<rparr>)
       = (Returned, (connectedComponent 25000000)\<lparr>hasMinted := True\<rparr>)
   \<and> handleMint Resolves (snd (handleMint Resolves (connectedComponent 25000000)))
       = (Returned, snd (handleMint Resolves (connectedComponent 25000000)))"
  using mint_guard_noop [where w = freshComponent and out = Resolves]
    mint_guard_noop [where w = "(connectedComponent 25000000)\<lparr>hasMinted := True\<rparr>"
      and out = Resolves]
    mint_guard_noop [where w = "snd (handleMint Resolves (connectedComponent 25000000))"
      and a = "''0xabc''" and out = Resolves]
  by (simp add: freshComponent_def connectedComponent_def handleMint_eq flagLoaded_def
      alreadyMinted_def)

text \<open>
  Claim C5. Each of \<^verbatim>\<open>handleConnectWallet\<close>, \<^verbatim>\<open>handleSwitchNetwork\<close> and \<^verbatim>\<open>handleMint\<close>
  returns to its caller whatever the awaited call does; when the handler got past its
  guard, \<^verbatim>\<open>isLoading\<close> is false on exit, and otherwise it is what it was (the handler did not
  set it); and when the awaited call throws, \<^verbatim>\<open>error\<close> is the one message of the handler's
  \<^verbatim>\<open>catch\<close> block, whatever \<^verbatim>\<open>error\<close> held before.
\<close>

theorem handlers_contain_failure:
  "fst (runHandler fc h out w) = Returned
   \<and> isLoading (snd (runHandler fc h out w)) = (if earlyReturn fc h w then isLoading w else False)
   \<and> (\<not> earlyReturn fc h w \<longrightarrow>
        error (snd (runHandler fc h Rejects w)) = Some (failureMessage h (selectedChain w)))"
  by (cases h; cases out)
    (auto simp: handleConnectWallet_eq handleSwitchNetwork_eq handleMint_eq split: option.splits)

theorem handlers_contain_failure_witness:
  "fst (handleConnectWallet Rejects (freshComponent\<lparr>error := Some ''old''\<rparr>)) = Returned
   \<and> isLoading (snd (handleConnectWallet Rejects (freshComponent\<lparr>error := Some ''old''\<rparr>))) = False
   \<and> error (snd (handleConnectWallet Rejects (freshComponent\<lparr>error := Some ''old''\<rparr>)))
       = Some ''Failed to connect wallet''
   \<and> error (snd (handleSwitchNetwork exampleChains Rejects (connectedComponent 0)))
       = Some ''Failed to switch to base''
   \<and> error (snd (handleMint Rejects (connectedComponent 0)))
       = Some ''Minting failed. Please try again.''"
  using handlers_contain_failure [where fc = exampleChains and h = HandleConnectWallet
      and out = Rejects and w = "freshComponent\<lparr>error := Some ''old''\<rparr>"]
    handlers_contain_failure [where fc = exampleChains and h = HandleSwitchNetwork
      and out = Rejects and w = "connectedComponent 0"]
    handlers_contain_failure [where fc = exampleChains and h = HandleMint
      and out = Rejects and w = "connectedComponent 0"]
  by (simp add: freshComponent_def connectedComponent_def targetChain_def)

text \<open>
  Claim C8. When the awaited call of a handler throws, the handler returns to its caller
  (no failure ends the program), and the store, the session (\<^verbatim>\<open>isConnected\<close>, \<^verbatim>\<open>address\<close>,
  \<^verbatim>\<open>chain\<close>), \<^verbatim>\<open>success\<close> and \<^verbatim>\<open>hasMinted\<close>, as well as the selected chain, the balance,
  the contract address and \<^verbatim>\<open>isSDKLoaded\<close>, are what they were before the call: only
  \<^verbatim>\<open>error\<close> and \<^verbatim>\<open>isLoading\<close> can differ.
\<close>

theorem failure_keeps_durable_state:
  "fst (runHandler fc h Rejects w) = Returned
   \<and> localStorage (snd (runHandler fc h Rejects w)) = localStorage w
   \<and> isConnected (snd (runHandler fc h Rejects w)) = isConnected w
   \<and> address (snd (runHandler fc h Rejects w)) = address w
   \<and> chain' (snd (runHandler fc h Rejects w)) = chain' w
   \<and> success (snd (runHandler fc h Rejects w)) = success w
   \<and> hasMinted (snd (runHandler fc h Rejects w)) = hasMinted w
   \<and> selectedChain (snd (runHandler fc h Rejects w)) = selectedChain w
   \<and> usdcBalance (snd (runHandler fc h Rejects w)) = usdcBalance w
   \<and> contractAddress (snd (runHandler fc h Rejects w)) = contractAddress w
   \<and> isSDKLoaded (snd (runHandler fc h Rejects w)) = isSDKLoaded w"
  by (cases h)
    (auto simp: handleConnectWallet_eq handleSwitchNetwork_eq handleMint_eq split: option.splits)

theorem failure_keeps_durable_state_witness:
  "fst (handleMint Rejects (connectedComponent 25000000)) = Returned
   \<and> localStorage (snd (handleMint Rejects (connectedComponent 25000000))) = Map.empty
   \<and> hasMinted (snd (handleMint Rejects (connectedComponent 25000000))) = False
   \<and> success (snd (handleMint Rejects (connectedComponent 25000000))) = False
   \<and> isConnected (snd (handleMint Rejects (connectedComponent 25000000))) = True
   \<and> address (snd (handleMint Rejects (connectedComponent 25000000))) = Some ''0xabc''"
  using failure_keeps_durable_state [where fc = exampleChains and h = HandleMint
      and w = "connectedComponent 25000000"]
  by (simp add: connectedComponent_def freshComponent_def)

text \<open>
  Claim C7, as amended. When the SDK is loaded and the connect call throws,
  \<^verbatim>\<open>handleConnectWallet\<close> returns with \<^verbatim>\<open>error\<close> exactly "Failed to connect wallet" and
  \<^verbatim>\<open>isLoading\<close> false, having called the adapter once; when the SDK is not loaded it
  returns with \<^verbatim>\<open>error\<close> "Farcaster SDK not loaded" and has not called the adapter. Whatever
  the outcome, the adapter is called at most once: there is no retry.
\<close>

theorem connect_failure_message:
  "handleConnectWallet Rejects w =
     (Returned,
      if isSDKLoaded w
      then w\<lparr>isLoading := False, error := Some ''Failed to connect wallet'',
             adapterCalls := adapterCalls w @ [ConnectCall]\<rparr>
      else w\<lparr>error := Some ''Farcaster SDK not loaded''\<rparr>)
   \<and> adapterCalls (snd (handleConnectWallet out w)) =
       (if isSDKLoaded w then adapterCalls w @ [ConnectCall] else adapterCalls w)"
  by (simp add: handleConnectWallet_eq)

theorem connect_failure_message_witness:
  "error (snd (handleConnectWallet Rejects freshComponent)) = Some ''Failed to connect wallet''
   \<and> adapterCalls (snd (handleConnectWallet Rejects freshComponent)) = [ConnectCall]"
  using connect_failure_message [where w = freshComponent and out = Rejects]
  by (simp add: freshComponent_def)

text \<open>
  Claim C7 as stated fails: with the SDK not loaded the call does not result in a
  connected session, and the error shown is "Farcaster SDK not loaded".
\<close>

theorem connect_failure_message_counterexample:
  "isConnected (snd (handleConnectWallet Rejects (freshComponent\<lparr>isSDKLoaded := False\<rparr>))) = False
   \<and> error (snd (handleConnectWallet Rejects (freshComponent\<lparr>isSDKLoaded := False\<rparr>)))
       = Some ''Farcaster SDK not loaded''
   \<and> error (snd (handleConnectWallet Rejects (freshComponent\<lparr>isSDKLoaded := False\<rparr>)))
       \<noteq> Some ''Failed to connect wallet''"
  by (simp add: handleConnectWallet_def freshComponent_def)

text \<open>
  Claim C10. Called while connected with a present address and \<^verbatim>\<open>hasMinted\<close> false, and the
  write to the store not throwing, \<^verbatim>\<open>handleMint\<close> runs to its end and sets the flag of the
  store (and \<^verbatim>\<open>hasMinted\<close> and \<^verbatim>\<open>success\<close>) whatever the active chain, the selected chain
  and the balance are: the guard reads only the connection, the address and \<^verbatim>\<open>hasMinted\<close>,
  and the handler gives the same result when the chains and the balance are replaced.
\<close>

theorem mint_ignores_network_and_balance:
  "(isConnected w \<and> truthy (address w) \<and> \<not> hasMinted w \<longrightarrow>
      handleMint Resolves w =
        (Returned,
         w\<lparr>isLoading := False, error := None,
           localStorage :=
             (localStorage w)
               (mintedKey (contractAddress w) (addressString (address w)) \<mapsto> ''true''),
           hasMinted := True, success := True\<rparr>))
   \<and> handleMint out (w\<lparr>chain' := c, usdcBalance := b, selectedChain := k\<rparr>) =
       (fst (handleMint out w),
        (snd (handleMint out w))\<lparr>chain' := c, usdcBalance := b, selectedChain := k\<rparr>)"
  by (cases out) (simp_all add: handleMint_eq)

theorem mint_ignores_network_and_balance_witness:
  "\<not> isCorrectNetwork exampleChains ((connectedComponent 0)\<lparr>selectedChain := ethereum\<rparr>)
   \<and> \<not> hasEnoughUSDC ((connectedComponent 0)\<lparr>selectedChain := ethereum\<rparr>)
   \<and> fst (handleMint Resolves ((connectedComponent 0)\<lparr>selectedChain := ethereum\<rparr>)) = Returned
   \<and> alreadyMinted
        (localStorage (snd (handleMint Resolves ((connectedComponent 0)\<lparr>selectedChain := ethereum\<rparr>))))
        (mintedKey ''0x1234567890123456789012345678901234567890'' ''0xabc'')
   \<and> hasMinted (snd (handleMint Resolves ((connectedComponent 0)\<lparr>selectedChain := ethereum\<rparr>)))"
  using mint_ignores_network_and_balance
    [where w = "(connectedComponent 0)\<lparr>selectedChain := ethereum\<rparr>" and out = Resolves
      and c = None and b = None and k = ethereum]
  by (simp add: connectedComponent_def freshComponent_def isCorrectNetwork_def targetChain_def
      hasEnoughUSDC_def alreadyMinted_def)


section \<open>A handler call in two parts\<close>

lemma resumeCall_eq:
  "resumeCall k out w =
     (Returned,
      case out of
        Rejects \<Rightarrow>
          if call_live k then w\<lparr>error := Some (catchMessage k), isLoading := False\<rparr> else w
      | Resolves \<Rightarrow>
          (case call_handler k of
             HandleMint \<Rightarrow>
               if call_live k
               then w\<lparr>localStorage :=
                        (localStorage w)
                          (mintedKey (call_contractAddress k) (addressString (call_address k))
                             \<mapsto> ''true''),
                      hasMinted := True, success := True, isLoading := False\<rparr>
               else w\<lparr>localStorage :=
                        (localStorage w)
                          (mintedKey (call_contractAddress k) (addressString (call_address k))
                             \<mapsto> ''true'')\<rparr>
           | _ \<Rightarrow> if call_live k then w\<lparr>isLoading := False\<rparr> else w))"
  by (cases out; cases "call_handler k")
    (simp_all add: resumeCall_def tryCatchFinally_def setState_def)

text \<open>
  A call with nothing in between is the handler as one function: the two parts put
  together are the handlers of the section above.
\<close>

lemma runHandler_two_parts:
  "runHandler fc h out w =
     (case beginCall fc h w of
        (w1, None) \<Rightarrow> (Returned, w1)
      | (w1, Some k) \<Rightarrow> resumeCall k out w1)"
proof (cases h)
  case HandleConnectWallet
  then show ?thesis
    by (cases out) (simp_all add: handleConnectWallet_eq resumeCall_eq capture_def)
next
  case HandleSwitchNetwork
  then show ?thesis
    by (cases out; cases "targetChain fc w")
      (simp_all add: handleSwitchNetwork_eq resumeCall_eq capture_def)
next
  case HandleMint
  then show ?thesis
    by (cases out) (simp_all add: handleMint_eq resumeCall_eq capture_def)
qed

section \<open>The action button\<close>

text \<open>
  Claim C6, at the input where the code departs from it. Wallet \<open>0xabc\<close> has minted and
  the wallet disconnects. The derived state is NeedsConnect: the button reads "Connect
  Wallet" and \<^verbatim>\<open>getButtonAction\<close> gives \<^verbatim>\<open>handleConnectWallet\<close>, nothing is in flight and no
  effect is due. But \<^verbatim>\<open>hasMinted\<close> is still true, the effect does not reset it without a
  connected address, and the \<^verbatim>\<open>disabled\<close> expression begins with \<^verbatim>\<open>hasMinted\<close>: no action is
  enabled, and a click leaves the component as it is. A component in the same derived
  state that has not minted offers \<^verbatim>\<open>handleConnectWallet\<close>.
\<close>

theorem connect_disabled_after_mint:
  "uiState exampleChains (current afterDisconnect) = NeedsConnect
   \<and> getButtonText exampleChains (current afterDisconnect) = ''Connect Wallet''
   \<and> getButtonAction exampleChains (current afterDisconnect) = HandleConnectWallet
   \<and> \<not> isConnected (current afterDisconnect) \<and> hasMinted (current afterDisconnect)
   \<and> \<not> isLoading (current afterDisconnect) \<and> \<not> effectPending afterDisconnect
   \<and> inFlight afterDisconnect = []
   \<and> buttonDisabled exampleChains (current afterDisconnect)
   \<and> enabledAction exampleChains (current afterDisconnect) = None
   \<and> clickButton exampleChains afterDisconnect = afterDisconnect
   \<and> uiState exampleChains freshComponent = NeedsConnect
   \<and> enabledAction exampleChains freshComponent = Some HandleConnectWallet"
  by (simp add: afterDisconnect_def mintedMachine_def mounted_def connectedComponent_def
      freshComponent_def invoke_def resume_def resumeCall_eq capture_def render_def
      renderWith_def flushEffect_def hasMintedEffect_def disconnectedHooks_def Let_def
      clickButton_def uiState_def spec_deriveState_def getButtonText_def getButtonAction_def
      buttonDisabled_def enabledAction_def canMint_def)

section \<open>The persisted flag\<close>

lemma split_at_first:
  "x \<notin> set xs \<Longrightarrow> x \<notin> set xs' \<Longrightarrow> xs @ x # ys = xs' @ x # ys' \<Longrightarrow> xs = xs' \<and> ys = ys'"
proof (induction xs arbitrary: xs')
  case Nil
  then show ?case by (cases xs') auto
next
  case (Cons z zs)
  then show ?case by (cases xs') auto
qed

lemma key_inject_contract:
  assumes "CHR ''_'' \<notin> set c" "CHR ''_'' \<notin> set c'" "mintedKey c a = mintedKey c' a'"
  shows "c = c' \<and> a = a'"
  using assms split_at_first [of "CHR ''_''" c c' a a'] by (simp add: mintedKey_def)

lemma key_inject_wallet:
  assumes "CHR ''_'' \<notin> set a" "CHR ''_'' \<notin> set a'" "mintedKey c a = mintedKey c' a'"
  shows "c = c' \<and> a = a'"
proof -
  from assms(3) have "rev (c @ CHR ''_'' # a) = rev (c' @ CHR ''_'' # a')"
    by (simp add: mintedKey_def)
  then have "rev a @ CHR ''_'' # rev c = rev a' @ CHR ''_'' # rev c'"
    by simp
  with assms(1,2) split_at_first [of "CHR ''_''" "rev a" "rev a'" "rev c" "rev c'"]
  show ?thesis by simp
qed

lemma hexDigit_not_underscore: "list_all hexDigit ds \<Longrightarrow> CHR ''_'' \<notin> set ds"
  by (induction ds) (auto simp: hexDigit_def)

lemma hexAddress_no_underscore: "hexAddress s \<Longrightarrow> CHR ''_'' \<notin> set s"
  by (cases s rule: hexAddress.cases) (auto dest: hexDigit_not_underscore)

lemma hexAddress_nonempty: "hexAddress s \<Longrightarrow> s \<noteq> []"
  by (cases s rule: hexAddress.cases) auto

lemma key_inject_addresses:
  assumes "hexAddress a \<and> hexAddress a' \<or> hexAddress c \<and> hexAddress c'"
    and "mintedKey c a = mintedKey c' a'"
  shows "c = c' \<and> a = a'"
  using assms key_inject_contract [of c c' a a'] key_inject_wallet [of a a' c c']
  by (auto dest: hexAddress_no_underscore)

text \<open>
  Claim C9. For two distinct pairs of a contract address and a wallet address (the wallet
  addresses, or the contract addresses, being hexadecimal addresses suffices), a
  successful \<^verbatim>\<open>handleMint\<close> for the pair \<open>(c, a)\<close> makes the flag read back for \<open>(c, a)\<close> true
  and leaves the flag read back for the other pair as it was. This holds for the call with
  nothing in between, and for the second part of a call suspended at its \<^verbatim>\<open>await\<close>, on
  whatever component it goes on, mounted or not.
\<close>

theorem mint_flag_frame:
  "(c', a') \<noteq> (c, a) \<and> a \<noteq> []
     \<and> (hexAddress a \<and> hexAddress a' \<or> hexAddress c \<and> hexAddress c')
   \<longrightarrow>
     (isConnected w \<and> address w = Some a \<and> \<not> hasMinted w \<and> contractAddress w = c
      \<longrightarrow> alreadyMinted (localStorage (snd (handleMint Resolves w))) (mintedKey c a)
        \<and> alreadyMinted (localStorage (snd (handleMint Resolves w))) (mintedKey c' a')
            = alreadyMinted (localStorage w) (mintedKey c' a'))
   \<and> (call_handler k = HandleMint \<and> call_contractAddress k = c \<and> call_address k = Some a
      \<longrightarrow> alreadyMinted (localStorage (snd (resumeCall k Resolves w))) (mintedKey c a)
        \<and> alreadyMinted (localStorage (snd (resumeCall k Resolves w))) (mintedKey c' a')
            = alreadyMinted (localStorage w) (mintedKey c' a'))"
  using key_inject_addresses [of a' a c' c]
  by (auto simp: handleMint_eq resumeCall_eq alreadyMinted_def)

theorem mint_flag_frame_witness:
  "alreadyMinted (localStorage (snd (handleMint Resolves (connectedComponent 25000000))))
     (mintedKey ''0x1234567890123456789012345678901234567890'' ''0xabc'')
   \<and> \<not> alreadyMinted (localStorage (snd (handleMint Resolves (connectedComponent 25000000))))
         (mintedKey ''0x1234567890123456789012345678901234567890'' ''0xdef'')
   \<and> \<not> alreadyMinted (localStorage (snd (handleMint Resolves (connectedComponent 25000000))))
         (mintedKey ''0x0000000000000000000000000000000000000000'' ''0xabc'')
   \<and> \<not> alreadyMinted
         (localStorage
            (snd (resumeCall (capture HandleMint (connectedComponent 25000000)) Resolves
               freshComponent)))
         (mintedKey ''0x1234567890123456789012345678901234567890'' ''0xdef'')"
  using mint_flag_frame [where w = "connectedComponent 25000000" and a = "''0xabc''"
      and c = "''0x1234567890123456789012345678901234567890''"
      and c' = "''0x1234567890123456789012345678901234567890''" and a' = "''0xdef''"
      and k = "capture HandleMint (connectedComponent 25000000)"]
    mint_flag_frame [where w = "connectedComponent 25000000" and a = "''0xabc''"
      and c = "''0x1234567890123456789012345678901234567890''"
      and c' = "''0x0000000000000000000000000000000000000000''" and a' = "''0xabc''"
      and k = "capture HandleMint (connectedComponent 25000000)"]
    mint_flag_frame [where w = freshComponent and a = "''0xabc''"
      and c = "''0x1234567890123456789012345678901234567890''"
      and c' = "''0x1234567890123456789012345678901234567890''" and a' = "''0xdef''"
      and k = "capture HandleMint (connectedComponent 25000000)"]
  by (simp add: connectedComponent_def freshComponent_def alreadyMinted_def capture_def
      hexDigit_def)
























end
